theory Spec2Isabelle
  imports Main "HOL-Library.Sublist" "HOL-Library.Word"
begin

section \<open>Lead generation pipeline of \<^verbatim>\<open>leadgen.js\<close>\<close>

text \<open>
  A shallow embedding of the pure core of \<^verbatim>\<open>src/leadgen.js\<close>: the normalisation of
  provider records, the heuristic and the website-derived insights, the fallback message
  template, and the two sequential stages that enrich and then generate.

  Conventions of the embedding.
  \<^item> A JavaScript string is the list of its UTF-16 code units, \<open>jsstring\<close>; the methods
    \<^verbatim>\<open>includes\<close>, \<^verbatim>\<open>substring\<close>, \<^verbatim>\<open>trim\<close> and \<^verbatim>\<open>join\<close> work on code units, as
    ECMAScript defines them. The string literals of the program are ASCII and are written
    \<open>js ''...''\<close>.
  \<^item> Two conversions of the language depend on tables that are no part of this program:
    the Unicode lower-casing of a string that holds a non-ASCII code unit, and the
    exponent form in which a number of magnitude \<open>10\<^sup>2\<^sup>1\<close> or more is written. They are the two
    fields of a \<open>runtime\<close>, a parameter of every function that converts; every statement
    below holds for every runtime. On ASCII strings and on smaller integers the conversions
    are defined here.
  \<^item> A property read from JSON may be absent or \<^verbatim>\<open>null\<close>: \<open>'a jsval\<close>.
  \<^item> An employee count is an integer (\<^typ>\<open>int\<close>).
  \<^item> An awaited call of a collaborator (the website fetch with its parse, the completion
    request) is given by its outcome, \<open>'a attempt\<close>: it threw, or it returned a value.
    \<^verbatim>\<open>new Date().toISOString()\<close> is given by the string it returned.
  \<^item> An exception that leaves a function is the \<open>Inl\<close> branch of its result.
  \<^item> Console output and the pacing delays are not part of the embedding.
\<close>

subsection \<open>Values and strings\<close>

type_synonym code_unit = "16 word"

type_synonym jsstring = "code_unit list"

text \<open>An ASCII literal as a JavaScript string.\<close>

definition js :: "string \<Rightarrow> jsstring" where
  "js s = map of_char s"

datatype 'a jsval = Undefined | Null | Val 'a

datatype error = TypeError | RequestError

datatype 'a attempt = Threw | Returned 'a

record runtime =
  unicode_toLowerCase :: "jsstring \<Rightarrow> jsstring"
  exponent_toString :: "int \<Rightarrow> jsstring"

text \<open>Truthiness of a string-valued property: present and not the empty string.\<close>

fun truthy :: "jsstring jsval \<Rightarrow> bool" where
  "truthy (Val s) = (s \<noteq> [])"
| "truthy Undefined = False"
| "truthy Null = False"

text \<open>\<^verbatim>\<open>v || ''\<close> for a string-valued property.\<close>

fun or_empty :: "jsstring jsval \<Rightarrow> jsstring" where
  "or_empty (Val s) = s"
| "or_empty Undefined = []"
| "or_empty Null = []"

text \<open>\<^verbatim>\<open>s.includes(key)\<close>: \<open>key\<close> occurs in \<open>s\<close> as a contiguous run of code units.\<close>

fun str_includes :: "jsstring \<Rightarrow> jsstring \<Rightarrow> bool" where
  "str_includes [] key = (key = [])"
| "str_includes (c # cs) key = (prefix key (c # cs) \<or> str_includes cs key)"

text \<open>\<^verbatim>\<open>xs.join(sep)\<close>.\<close>

fun join :: "jsstring \<Rightarrow> jsstring list \<Rightarrow> jsstring" where
  "join sep [] = []"
| "join sep [x] = x"
| "join sep (x # y # ys) = x @ sep @ join sep (y # ys)"

text \<open>
  \<^verbatim>\<open>s.toLowerCase()\<close>. On a string of ASCII code units the Unicode default case
  conversion maps \<open>A\<close> to \<open>Z\<close> onto \<open>a\<close> to \<open>z\<close> and nothing else; any other string is
  converted by the runtime's table.
\<close>

definition is_ascii :: "code_unit \<Rightarrow> bool" where
  "is_ascii u = (u < 0x80)"

definition ascii_lower :: "code_unit \<Rightarrow> code_unit" where
  "ascii_lower u = (if 0x41 \<le> u \<and> u \<le> 0x5A then u + 0x20 else u)"

definition toLowerCase :: "runtime \<Rightarrow> jsstring \<Rightarrow> jsstring" where
  "toLowerCase rt s =
     (if list_all is_ascii s then map ascii_lower s else unicode_toLowerCase rt s)"

text \<open>
  \<^verbatim>\<open>s.trim()\<close> removes the leading and the trailing code units that are ECMAScript
  \<open>WhiteSpace\<close> or \<open>LineTerminator\<close>: tab, line feed, vertical tab, form feed, carriage
  return, space, no-break space, the other space separators of Unicode (\<open>U+1680\<close>,
  \<open>U+2000\<close> to \<open>U+200A\<close>, \<open>U+202F\<close>, \<open>U+205F\<close>, \<open>U+3000\<close>), the line and the paragraph
  separator, and the byte order mark. All of them are single code units.
\<close>

definition is_space :: "code_unit \<Rightarrow> bool" where
  "is_space u =
     (u \<in> set [0x0009, 0x000A, 0x000B, 0x000C, 0x000D, 0x0020, 0x00A0, 0x1680, 0x2028, 0x2029,
                0x202F, 0x205F, 0x3000, 0xFEFF]
      \<or> (0x2000 \<le> u \<and> u \<le> 0x200A))"

definition trim :: "jsstring \<Rightarrow> jsstring" where
  "trim s = rev (dropWhile is_space (rev (dropWhile is_space s)))"

text \<open>\<^verbatim>\<open>s.substring(0, n)\<close>: the first \<open>n\<close> code units.\<close>

definition substring0 :: "nat \<Rightarrow> jsstring \<Rightarrow> jsstring" where
  "substring0 n s = take n s"

text \<open>
  A number inside a template literal. An integer of magnitude below \<open>10\<^sup>2\<^sup>1\<close> is written
  as its decimal numeral, with a minus sign when negative; a larger one in the exponent
  form that the runtime gives.
\<close>

definition digit_unit :: "nat \<Rightarrow> code_unit" where
  "digit_unit d = 0x30 + of_nat (d mod 10)"

fun decimal :: "nat \<Rightarrow> jsstring" where
  "decimal n = (if 10 \<le> n then decimal (n div 10) else []) @ [digit_unit n]"

declare decimal.simps [simp del]

definition number_to_string :: "runtime \<Rightarrow> int \<Rightarrow> jsstring" where
  "number_to_string rt i =
     (if \<bar>i\<bar> < 10 ^ 21
      then (if 0 \<le> i then decimal (nat i) else js ''-'' @ decimal (nat (- i)))
      else exponent_toString rt i)"

text \<open>A property inside a template literal: \<^verbatim>\<open>${v}\<close> between back quotes.\<close>

fun render :: "('a \<Rightarrow> jsstring) \<Rightarrow> 'a jsval \<Rightarrow> jsstring" where
  "render f (Val x) = f x"
| "render f Undefined = js ''undefined''"
| "render f Null = js ''null''"

text \<open>The line feed of a template literal that runs over several lines.\<close>

definition nl :: jsstring where
  "nl = [0x0A]"

subsection \<open>Data model\<close>

text \<open>An organization record of the provider's response, with the properties the program reads.\<close>

record organization =
  org_name :: "jsstring jsval"
  website_url :: "jsstring jsval"
  estimated_num_employees :: "int jsval"
  org_industry :: "jsstring jsval"
  city :: "jsstring jsval"
  state :: "jsstring jsval"
  country :: "jsstring jsval"

text \<open>The company object that \<open>transformApolloResponse\<close> builds, and its two extensions.\<close>

record company =
  name :: "jsstring jsval"
  website :: "jsstring jsval"
  employeeCount :: "int jsval"
  industry :: "jsstring jsval"
  location :: jsstring

record enriched_company = company +
  insights :: "jsstring list"
  lastUpdated :: jsstring

record final_result = enriched_company +
  personalizedMessage :: jsstring
  messageGenerated :: jsstring
  aiGenerated :: bool

subsection \<open>Lead source: normalisation\<close>

text \<open>The object literal that the callback of \<^verbatim>\<open>map\<close> builds from one record.\<close>

definition to_company :: "organization \<Rightarrow> company" where
  "to_company org =
     \<lparr> name = org_name org,
       website = website_url org,
       employeeCount = estimated_num_employees org,
       industry = org_industry org,
       location = trim (or_empty (city org) @ js '', '' @ or_empty (state org) @ js '' ''
                        @ or_empty (country org)) \<rparr>"

definition transformApolloResponse :: "organization list \<Rightarrow> company list" where
  "transformApolloResponse organizations =
     filter (\<lambda>company. truthy (name company) \<and> truthy (website company))
            (map to_company organizations)"

subsection \<open>Heuristic insights\<close>

definition INDUSTRY_INSIGHTS :: "(jsstring \<times> jsstring list) list" where
  "INDUSTRY_INSIGHTS =
     [(js ''Software'',
         [js ''Uses cloud-based development infrastructure'',
          js ''Recently expanded their engineering team'',
          js ''Focuses on SaaS solutions for enterprise clients'']),
      (js ''Data'',
         [js ''Processes large datasets for analytics'',
          js ''Offers real-time data visualization tools'',
          js ''Serves clients in finance and healthcare sectors'']),
      (js ''Cloud'',
         [js ''Specializes in multi-cloud deployments'',
          js ''Offers 24/7 infrastructure monitoring'',
          js ''Recently achieved SOC 2 compliance'']),
      (js ''AI'',
         [js ''Develops machine learning models'',
          js ''Requires high-performance computing resources'',
          js ''Focus on computer vision and NLP applications'']),
      (js ''Cyber'',
         [js ''Provides enterprise security solutions'',
          js ''Offers threat detection and response services'',
          js ''Compliance with GDPR and HIPAA requirements''])]"

text \<open>\<^verbatim>\<open>Object.keys(INDUSTRY_INSIGHTS)\<close>: the keys in declaration order.\<close>

definition industry_keys :: "jsstring list" where
  "industry_keys = map fst INDUSTRY_INSIGHTS"

text \<open>\<^verbatim>\<open>employeeCount > 100\<close> is false for an absent or \<^verbatim>\<open>null\<close> count.\<close>

fun getCompanySizeInsights :: "int jsval \<Rightarrow> jsstring" where
  "getCompanySizeInsights (Val n) =
     (if n > 100 then (js ''Large team suggests significant IT infrastructure needs'')
      else (js ''Growing company likely expanding their tech stack''))"
| "getCompanySizeInsights Undefined = js ''Growing company likely expanding their tech stack''"
| "getCompanySizeInsights Null = js ''Growing company likely expanding their tech stack''"

text \<open>
  \<open>generateMockInsights\<close>. Reading \<^verbatim>\<open>company.industry.includes\<close> raises a
  \<^verbatim>\<open>TypeError\<close> when the industry is absent or \<^verbatim>\<open>null\<close>.
\<close>

definition generateMockInsights :: "'a company_scheme \<Rightarrow> error + jsstring list" where
  "generateMockInsights company =
     (case industry company of
        Val ind \<Rightarrow>
          (let industryKey = find (\<lambda>key. str_includes ind key) industry_keys;
               pushed = (case industryKey of
                           None \<Rightarrow> Some []
                         | Some key \<Rightarrow> if key \<noteq> [] then map_of INDUSTRY_INSIGHTS key else Some [])
           in case pushed of
                None \<Rightarrow> Inl TypeError
              | Some block \<Rightarrow>
                  (let insights = block @ [getCompanySizeInsights (employeeCount company)]
                   in Inr (if length insights > 0 then insights
                           else [js ''Limited industry information available''])))
      | Undefined \<Rightarrow> Inl TypeError
      | Null \<Rightarrow> Inl TypeError)"

subsection \<open>Website-derived insights\<close>

text \<open>
  What the program reads from a fetched and parsed page: the \<^verbatim>\<open>content\<close> attribute of the
  description \<^verbatim>\<open>meta\<close> element (absent when there is none), the text of \<^verbatim>\<open>title\<close> and
  the text of \<^verbatim>\<open>body\<close>.
\<close>

record page =
  metaDescription :: "jsstring jsval"
  title :: jsstring
  bodyText :: jsstring

definition extractMetadataInsights :: "page \<Rightarrow> jsstring list" where
  "extractMetadataInsights p =
     (if truthy (metaDescription p)
      then [js ''Website focus: '' @ substring0 100 (or_empty (metaDescription p)) @ js ''...'']
      else [])
     @ (if title p \<noteq> []
        then [js ''Company positioning: '' @ substring0 80 (title p) @ js ''...'']
        else [])"

definition techKeywords :: "jsstring list" where
  "techKeywords =
     [js ''cloud'', js ''ai'', js ''machine learning'', js ''saas'', js ''api'', js ''software'', js ''technology'',
      js ''digital'', js ''automation'', js ''analytics'']"

definition extractTechnologyInsights :: "jsstring \<Rightarrow> jsstring list" where
  "extractTechnologyInsights pageText =
     (let foundKeywords = filter (\<lambda>keyword. str_includes pageText keyword) techKeywords
      in if length foundKeywords > 0
         then [js ''Technology focus: '' @ join (js '', '') (take 3 foundKeywords)]
         else [])"

definition businessKeywords :: "jsstring list" where
  "businessKeywords =
     [js ''enterprise'', js ''fortune'', js ''clients'', js ''customers'', js ''global'', js ''scale'', js ''growth'']"

definition extractBusinessInsights :: "jsstring \<Rightarrow> jsstring list" where
  "extractBusinessInsights pageText =
     (let foundBusinessWords = filter (\<lambda>keyword. str_includes pageText keyword) businessKeywords
      in if length foundBusinessWords > 0
         then [js ''Business indicators: '' @ join (js '', '') (take 2 foundBusinessWords)]
         else [])"

text \<open>The insight list that the \<^verbatim>\<open>try\<close> block of \<open>scrapeCompanyWebsite\<close> builds.\<close>

definition website_insights :: "runtime \<Rightarrow> page \<Rightarrow> 'a company_scheme \<Rightarrow> jsstring list" where
  "website_insights rt p company =
     (let pageText = toLowerCase rt (bodyText p);
          insights = extractMetadataInsights p
                     @ extractTechnologyInsights pageText
                     @ extractBusinessInsights pageText
                     @ [getCompanySizeInsights (employeeCount company)]
      in if length insights > 0 then insights else [js ''Limited website information available''])"

text \<open>
  \<open>scrapeCompanyWebsite\<close>: \<open>fetched\<close> is the outcome of the request and the parse,
  \<open>now\<close> the time stamp. The \<^verbatim>\<open>catch\<close> block calls \<open>generateMockInsights\<close>; what
  that raises leaves the function.
\<close>

definition scrapeCompanyWebsite ::
  "runtime \<Rightarrow> jsstring \<Rightarrow> page attempt \<Rightarrow> company \<Rightarrow> error + enriched_company" where
  "scrapeCompanyWebsite rt now fetched company =
     (case fetched of
        Returned p \<Rightarrow>
          Inr (company.extend company (enriched_company.fields (website_insights rt p company) now))
      | Threw \<Rightarrow>
          (case generateMockInsights company of
             Inl e \<Rightarrow> Inl e
           | Inr mock \<Rightarrow> Inr (company.extend company (enriched_company.fields mock now))))"

subsection \<open>Messages\<close>

definition createFallbackMessage :: "runtime \<Rightarrow> 'a enriched_company_scheme \<Rightarrow> jsstring" where
  "createFallbackMessage rt enrichedCompany =
     (let generic = js ''Our hardware solutions could significantly enhance your operations.'';
          insightText =
            (case insights enrichedCompany of
               [] \<Rightarrow> generic
             | first # _ \<Rightarrow>
                 if first \<noteq> []
                 then (js ''Given your '') @ toLowerCase rt first
                      @ js '', our high-performance servers and workstations could significantly enhance your operations.''
                 else generic)
      in (js ''Hi '') @ render id (name enrichedCompany) @ js '' team,'' @ nl @ nl
         @ js ''I noticed your company in the '' @ render id (industry enrichedCompany)
         @ js '' space with '' @ render (number_to_string rt) (employeeCount enrichedCompany)
         @ js '' employees. Based on your growth and technical focus, I believe TechHardware Pro could help optimize your IT infrastructure with enterprise-grade hardware solutions.''
         @ nl @ nl @ insightText @ nl @ nl
         @ js ''Would you be open to a brief conversation about your current hardware needs?''
         @ nl @ nl @ js ''Best regards,'' @ nl @ js ''Sales Team - TechHardware Pro'')"

text \<open>
  The completion request and \<^verbatim>\<open>response.data.choices[0].message.content.trim()\<close>. The
  outcome of the request is the list of the choices' message contents when the request
  returned a body of that shape, and \<open>Threw\<close> otherwise (the request failed, or the
  property chain raised on the body).
\<close>

fun aiMessage :: "jsstring jsval list attempt \<Rightarrow> error + jsstring" where
  "aiMessage Threw = Inl RequestError"
| "aiMessage (Returned []) = Inl TypeError"
| "aiMessage (Returned (Val content # _)) = Inr (trim content)"
| "aiMessage (Returned (Undefined # _)) = Inl TypeError"
| "aiMessage (Returned (Null # _)) = Inl TypeError"

definition generatePersonalizedMessage ::
  "runtime \<Rightarrow> jsstring \<Rightarrow> jsstring jsval list attempt \<Rightarrow> enriched_company
     \<Rightarrow> final_result" where
  "generatePersonalizedMessage rt now response enrichedCompany =
     (case aiMessage response of
        Inr aiText \<Rightarrow>
          enriched_company.extend enrichedCompany (final_result.fields aiText now True)
      | Inl e \<Rightarrow>
          enriched_company.extend enrichedCompany
            (final_result.fields (createFallbackMessage rt enrichedCompany) now False))"

subsection \<open>The two sequential stages\<close>

text \<open>
  Each stage is a \<^verbatim>\<open>for ... of\<close> loop that awaits one call per item and pushes its result.
  The outcome of the \<open>k\<close>-th request and the \<open>k\<close>-th time stamp of a stage are given by
  functions of \<open>k\<close>.
\<close>

fun enrich_loop ::
  "runtime \<Rightarrow> (nat \<Rightarrow> page attempt) \<Rightarrow> (nat \<Rightarrow> jsstring) \<Rightarrow> nat \<Rightarrow> company list \<Rightarrow> enriched_company list
     \<Rightarrow> error + enriched_company list" where
  "enrich_loop rt fetch clock k [] enrichedCompanies = Inr enrichedCompanies"
| "enrich_loop rt fetch clock k (company # rest) enrichedCompanies =
     (case scrapeCompanyWebsite rt (clock k) (fetch k) company of
        Inl e \<Rightarrow> Inl e
      | Inr enriched \<Rightarrow> enrich_loop rt fetch clock (Suc k) rest (enrichedCompanies @ [enriched]))"

definition enrichCompaniesWithInsights ::
  "runtime \<Rightarrow> (nat \<Rightarrow> page attempt) \<Rightarrow> (nat \<Rightarrow> jsstring) \<Rightarrow> company list
     \<Rightarrow> error + enriched_company list" where
  "enrichCompaniesWithInsights rt fetch clock companies = enrich_loop rt fetch clock 0 companies []"

fun message_loop ::
  "runtime \<Rightarrow> (nat \<Rightarrow> jsstring jsval list attempt) \<Rightarrow> (nat \<Rightarrow> jsstring) \<Rightarrow> nat \<Rightarrow> enriched_company list
     \<Rightarrow> final_result list \<Rightarrow> final_result list" where
  "message_loop rt complete clock k [] finalResults = finalResults"
| "message_loop rt complete clock k (company # rest) finalResults =
     message_loop rt complete clock (Suc k) rest
       (finalResults @ [generatePersonalizedMessage rt (clock k) (complete k) company])"

definition generateMessagesForCompanies ::
  "runtime \<Rightarrow> (nat \<Rightarrow> jsstring jsval list attempt) \<Rightarrow> (nat \<Rightarrow> jsstring) \<Rightarrow> enriched_company list
     \<Rightarrow> final_result list" where
  "generateMessagesForCompanies rt complete clock enrichedCompanies =
     message_loop rt complete clock 0 enrichedCompanies []"

text \<open>Steps 3 and 4 of \<open>runLeadGeneration\<close>: enrich, then generate.\<close>

definition enrich_and_generate ::
  "runtime \<Rightarrow> (nat \<Rightarrow> page attempt) \<Rightarrow> (nat \<Rightarrow> jsstring) \<Rightarrow> (nat \<Rightarrow> jsstring jsval list attempt)
     \<Rightarrow> (nat \<Rightarrow> jsstring) \<Rightarrow> company list \<Rightarrow> error + final_result list" where
  "enrich_and_generate rt fetch clock1 complete clock2 companies =
     (case enrichCompaniesWithInsights rt fetch clock1 companies of
        Inl e \<Rightarrow> Inl e
      | Inr enrichedCompanies \<Rightarrow>
          Inr (generateMessagesForCompanies rt complete clock2 enrichedCompanies))"

subsection \<open>Auxiliary notions for the statements\<close>

text \<open>
  A runtime to close an example with. Its two tables are never consulted where it is used:
  the strings there are ASCII and the numbers small.
\<close>

definition sample_runtime :: runtime where
  "sample_runtime = \<lparr>unicode_toLowerCase = id, exponent_toString = (\<lambda>i. [])\<rparr>"

text \<open>A property that holds a string.\<close>

fun is_string :: "jsstring jsval \<Rightarrow> bool" where
  "is_string (Val s) = True"
| "is_string Undefined = False"
| "is_string Null = False"

text \<open>
  The specification's wording of the keyword report, ``up to the first \<open>n\<close> matches found,
  in keyword-list order'': scan the list in order and stop after \<open>n\<close> matches. It is
  compared below with what the code does (filter everything, then slice).
\<close>

fun first_matches :: "nat \<Rightarrow> ('a \<Rightarrow> bool) \<Rightarrow> 'a list \<Rightarrow> 'a list" where
  "first_matches 0 p xs = []"
| "first_matches (Suc n) p [] = []"
| "first_matches (Suc n) p (x # xs) =
     (if p x then x # first_matches n p xs else first_matches (Suc n) p xs)"

section \<open>Properties\<close>

subsection \<open>Strings and keys\<close>

lemma str_includes_sublist: "str_includes s key \<longleftrightarrow> sublist key s"
  by (induction s) (auto simp: sublist_Cons_right)

lemma of_char_unit_eq_iff: "(of_char c :: code_unit) = of_char d \<longleftrightarrow> c = d"
proof
  assume "(of_char c :: code_unit) = of_char d"
  then have "unat (of_nat (of_char c) :: code_unit) = unat (of_nat (of_char d) :: code_unit)"
    by (simp add: of_nat_of_char)
  moreover have "(of_char c :: nat) < 2 ^ 16" "(of_char d :: nat) < 2 ^ 16"
    by (rule less_trans [OF nat_of_char_less_256], simp)+
  ultimately have "(of_char c :: nat) = of_char d"
    by (simp add: unat_of_nat)
  then show "c = d"
    by simp
qed simp

lemma js_eq_iff [simp]: "js a = js b \<longleftrightarrow> a = b"
proof -
  have "inj (of_char :: char \<Rightarrow> code_unit)"
    by (rule injI) (simp add: of_char_unit_eq_iff)
  then show ?thesis
    by (simp add: js_def inj_map_eq_map)
qed

lemma js_Nil_iff [simp]: "js s = [] \<longleftrightarrow> s = []" "[] = js s \<longleftrightarrow> s = []"
  by (auto simp: js_def)

lemma industry_keys_eq: "industry_keys = [js ''Software'', js ''Data'', js ''Cloud'', js ''AI'', js ''Cyber'']"
  by (simp add: industry_keys_def INDUSTRY_INSIGHTS_def)

lemma size_insight_nonempty: "getCompanySizeInsights n \<noteq> []"
  by (cases n) auto

subsection \<open>The heuristic insights\<close>

lemma generateMockInsights_no_key:
  assumes "industry c = Val ind"
    and "find (\<lambda>key. str_includes ind key) industry_keys = None"
  shows "generateMockInsights c = Inr [getCompanySizeInsights (employeeCount c)]"
  using assms by (simp add: generateMockInsights_def)

lemma generateMockInsights_key:
  assumes "industry c = Val ind"
    and "find (\<lambda>key. str_includes ind key) industry_keys = Some key"
  shows "\<exists>block. map_of INDUSTRY_INSIGHTS key = Some block \<and> length block = 3 \<and>
           [] \<notin> set block \<and>
           generateMockInsights c = Inr (block @ [getCompanySizeInsights (employeeCount c)])"
proof -
  from assms(2) have "key \<in> set industry_keys"
    by (auto simp: find_Some_iff)
  then have "key \<in> {js ''Software'', js ''Data'', js ''Cloud'', js ''AI'', js ''Cyber''}"
    by (simp add: industry_keys_eq)
  then obtain block
    where "map_of INDUSTRY_INSIGHTS key = Some block" "length block = 3" "key \<noteq> []"
      "[] \<notin> set block"
    by (auto simp: INDUSTRY_INSIGHTS_def)
  with assms show ?thesis
    by (simp add: generateMockInsights_def)
qed

text \<open>
  The placeholder of \<open>generateMockInsights\<close> is guarded by the length of a list to which
  the size insight has already been pushed, so no input reaches it.
\<close>

lemma generateMockInsights_size_last:
  assumes "generateMockInsights c = Inr ins"
  shows "ins \<noteq> [] \<and> last ins = getCompanySizeInsights (employeeCount c)"
proof (cases "industry c")
  case (Val ind)
  show ?thesis
  proof (cases "find (\<lambda>key. str_includes ind key) industry_keys")
    case None
    from generateMockInsights_no_key [OF Val None] assms show ?thesis by auto
  next
    case (Some key)
    from generateMockInsights_key [OF Val Some] assms show ?thesis by auto
  qed
qed (use assms in \<open>simp_all add: generateMockInsights_def\<close>)

lemma generateMockInsights_TypeError:
  "\<not> is_string (industry c) \<Longrightarrow> generateMockInsights c = Inl TypeError"
  by (cases "industry c") (simp_all add: generateMockInsights_def)

lemma generateMockInsights_returns:
  assumes "is_string (industry c)"
  shows "\<exists>ins. generateMockInsights c = Inr ins \<and> 1 \<le> length ins"
proof -
  from assms obtain ind where ind: "industry c = Val ind"
    by (cases "industry c") auto
  show ?thesis
  proof (cases "find (\<lambda>key. str_includes ind key) industry_keys")
    case None
    from generateMockInsights_no_key [OF ind None] show ?thesis by simp
  next
    case (Some key)
    from generateMockInsights_key [OF ind Some] show ?thesis by auto
  qed
qed

text \<open>
  Claim C1, as amended. For every candidate whose industry string contains none of the
  mapping keys \<open>Software\<close>, \<open>Data\<close>, \<open>Cloud\<close>, \<open>AI\<close>, \<open>Cyber\<close>, the fallback insight
  function \<open>generateMockInsights\<close> returns the list that consists of the company-size
  insight alone; for \<open>employeeCount = 10\<close> that is
  \<open>Growing company likely expanding their tech stack\<close>. The placeholder
  \<open>Limited industry information available\<close> is not part of the list.
\<close>

theorem generateMockInsights_no_match:
  assumes "industry c = Val ind"
    and "\<not> str_includes ind (js ''Software'')" and "\<not> str_includes ind (js ''Data'')"
    and "\<not> str_includes ind (js ''Cloud'')" and "\<not> str_includes ind (js ''AI'')"
    and "\<not> str_includes ind (js ''Cyber'')"
  shows "generateMockInsights c = Inr [getCompanySizeInsights (employeeCount c)]
         \<and> js ''Limited industry information available''
             \<notin> set [getCompanySizeInsights (employeeCount c)]
         \<and> (employeeCount c = Val 10 \<longrightarrow>
              generateMockInsights c
              = Inr [js ''Growing company likely expanding their tech stack''])"
proof -
  have "find (\<lambda>key. str_includes ind key) industry_keys = None"
    using assms(2-) by (simp add: industry_keys_eq)
  with assms(1) have "generateMockInsights c = Inr [getCompanySizeInsights (employeeCount c)]"
    by (rule generateMockInsights_no_key)
  moreover have "js ''Limited industry information available''
                   \<noteq> getCompanySizeInsights (employeeCount c)"
    by (cases "employeeCount c") auto
  ultimately show ?thesis by auto
qed

theorem generateMockInsights_no_match_witness:
  "generateMockInsights
     \<lparr>name = Val (js ''Acme''), website = Val (js ''https://acme.example''), employeeCount = Val 10,
      industry = Val (js ''Unknown Widgets''), location = js ''Austin, TX USA''\<rparr>
   = Inr [js ''Growing company likely expanding their tech stack'']"
  using generateMockInsights_no_match
    [of "\<lparr>name = Val (js ''Acme''), website = Val (js ''https://acme.example''), employeeCount = Val 10,
          industry = Val (js ''Unknown Widgets''), location = js ''Austin, TX USA''\<rparr>"
        "js ''Unknown Widgets''"]
  by (simp add: js_def)

text \<open>
  Claim C1 as it is written fails at its own scenario: \<open>Unknown Widgets\<close> contains no key,
  and the result is the size insight alone, not the placeholder followed by it.
\<close>

theorem generateMockInsights_placeholder_counterexample:
  "\<not> str_includes (js ''Unknown Widgets'') (js ''Software'')
   \<and> \<not> str_includes (js ''Unknown Widgets'') (js ''Data'')
   \<and> \<not> str_includes (js ''Unknown Widgets'') (js ''Cloud'')
   \<and> \<not> str_includes (js ''Unknown Widgets'') (js ''AI'')
   \<and> \<not> str_includes (js ''Unknown Widgets'') (js ''Cyber'')
   \<and> generateMockInsights
        \<lparr>name = Val (js ''Acme''), website = Val (js ''https://acme.example''), employeeCount = Val 10,
         industry = Val (js ''Unknown Widgets''), location = js ''Austin, TX USA''\<rparr>
      = Inr [js ''Growing company likely expanding their tech stack'']
   \<and> generateMockInsights
        \<lparr>name = Val (js ''Acme''), website = Val (js ''https://acme.example''), employeeCount = Val 10,
         industry = Val (js ''Unknown Widgets''), location = js ''Austin, TX USA''\<rparr>
      \<noteq> Inr [js ''Limited industry information available'',
              js ''Growing company likely expanding their tech stack'']"
  by (simp add: generateMockInsights_def industry_keys_eq js_def)

text \<open>
  Claim C6. For a candidate with industry \<open>Enterprise Software\<close> and 150 employees,
  whatever its other fields, \<open>generateMockInsights\<close> returns the three canned insights of
  the key \<open>Software\<close> followed by the large-company size insight. \<open>Software\<close> is the
  first key in declaration order that the industry string contains.
\<close>

theorem generateMockInsights_enterprise_software:
  "generateMockInsights
     \<lparr>name = n, website = w, employeeCount = Val 150, industry = Val (js ''Enterprise Software''),
      location = l, \<dots> = ext\<rparr>
   = Inr [js ''Uses cloud-based development infrastructure'',
          js ''Recently expanded their engineering team'',
          js ''Focuses on SaaS solutions for enterprise clients'',
          js ''Large team suggests significant IT infrastructure needs'']
   \<and> find (\<lambda>key. str_includes (js ''Enterprise Software'') key) industry_keys = Some (js ''Software'')
   \<and> hd industry_keys = js ''Software''"
  by (simp add: generateMockInsights_def industry_keys_eq INDUSTRY_INSIGHTS_def js_def)

theorem generateMockInsights_enterprise_software_witness:
  "generateMockInsights
     \<lparr>name = Val (js ''Initech''), website = Val (js ''https://initech.example''),
      employeeCount = Val 150, industry = Val (js ''Enterprise Software''),
      location = js ''Austin, TX USA''\<rparr>
   = Inr [js ''Uses cloud-based development infrastructure'',
          js ''Recently expanded their engineering team'',
          js ''Focuses on SaaS solutions for enterprise clients'',
          js ''Large team suggests significant IT infrastructure needs'']"
  using generateMockInsights_enterprise_software
    [where n = "Val (js ''Initech'')" and w = "Val (js ''https://initech.example'')"
       and l = "js ''Austin, TX USA''" and ext = "()"]
  by simp

text \<open>
  Claim C7. \<open>generateMockInsights\<close> is a function of the industry and the employee count
  alone: two candidates that agree on both get identical results, whatever their other
  fields. The embedding takes no clock, no random source and no outcome of a collaborator,
  as the source function reads none.
\<close>

theorem generateMockInsights_deterministic:
  assumes "industry c1 = industry c2" and "employeeCount c1 = employeeCount c2"
  shows "generateMockInsights c1 = generateMockInsights c2"
  unfolding generateMockInsights_def assms by (rule refl)

theorem generateMockInsights_deterministic_witness:
  "generateMockInsights
     \<lparr>name = Val (js ''Acme''), website = Val (js ''https://acme.example''), employeeCount = Val 150,
      industry = Val (js ''Cloud Data''), location = js ''Austin, TX USA''\<rparr>
   = generateMockInsights
     \<lparr>name = Val (js ''Initech''), website = Val (js ''https://initech.example''),
      employeeCount = Val 150, industry = Val (js ''Cloud Data''), location = js '',''\<rparr>"
  using generateMockInsights_deterministic
    [of "\<lparr>name = Val (js ''Acme''), website = Val (js ''https://acme.example''), employeeCount = Val 150,
          industry = Val (js ''Cloud Data''), location = js ''Austin, TX USA''\<rparr>"
        "\<lparr>name = Val (js ''Initech''), website = Val (js ''https://initech.example''),
          employeeCount = Val 150, industry = Val (js ''Cloud Data''), location = js '',''\<rparr>"]
  by simp

subsection \<open>Normalisation of provider records\<close>

lemma truthy_iff: "truthy v \<longleftrightarrow> (\<exists>s. v = Val s \<and> s \<noteq> [])"
  by (cases v) auto

lemma transformApolloResponse_filter_map:
  "transformApolloResponse orgs
   = map to_company (filter (\<lambda>org. truthy (org_name org) \<and> truthy (website_url org)) orgs)"
  by (simp add: transformApolloResponse_def filter_map o_def to_company_def)

text \<open>
  Claim C5. For every list of provider organization records, \<open>transformApolloResponse\<close>
  returns a list no longer than its input; every element of the result has a name and a
  website that are non-empty strings; every input record that lacks either (absent,
  \<^verbatim>\<open>null\<close> or the empty string) has no image in the result. The result is the image,
  in order, of exactly the records that have both.
\<close>

theorem transformApolloResponse_valid:
  "length (transformApolloResponse orgs) \<le> length orgs
   \<and> (\<forall>c \<in> set (transformApolloResponse orgs).
         (\<exists>n. name c = Val n \<and> n \<noteq> []) \<and> (\<exists>w. website c = Val w \<and> w \<noteq> []))
   \<and> (\<forall>org \<in> set orgs.
         \<not> truthy (org_name org) \<or> \<not> truthy (website_url org)
         \<longrightarrow> to_company org \<notin> set (transformApolloResponse orgs))
   \<and> transformApolloResponse orgs
       = map to_company
           (filter (\<lambda>org. truthy (org_name org) \<and> truthy (website_url org)) orgs)"
proof -
  have "length (transformApolloResponse orgs) \<le> length orgs"
    unfolding transformApolloResponse_def
    using length_filter_le [of _ "map to_company orgs"] by simp
  moreover have "\<forall>c \<in> set (transformApolloResponse orgs).
         (\<exists>n. name c = Val n \<and> n \<noteq> []) \<and> (\<exists>w. website c = Val w \<and> w \<noteq> [])"
    by (auto simp: transformApolloResponse_def truthy_iff)
  moreover have "\<forall>org \<in> set orgs.
         \<not> truthy (org_name org) \<or> \<not> truthy (website_url org)
         \<longrightarrow> to_company org \<notin> set (transformApolloResponse orgs)"
    by (auto simp: transformApolloResponse_def to_company_def)
  ultimately show ?thesis
    using transformApolloResponse_filter_map by blast
qed

theorem transformApolloResponse_valid_witness:
  "transformApolloResponse
     [\<lparr>org_name = Val (js ''Acme''), website_url = Val (js ''https://acme.example''),
       estimated_num_employees = Val 120, org_industry = Val (js ''Software''),
       city = Val (js ''Austin''), state = Val (js ''TX''), country = Val (js ''USA'')\<rparr>,
      \<lparr>org_name = Undefined, website_url = Val (js ''https://nameless.example''),
       estimated_num_employees = Val 60, org_industry = Val (js ''Data''),
       city = Undefined, state = Null, country = Val (js ''USA'')\<rparr>,
      \<lparr>org_name = Val (js ''Hooli''), website_url = Val [],
       estimated_num_employees = Null, org_industry = Null,
       city = Null, state = Null, country = Null\<rparr>]
   = [\<lparr>name = Val (js ''Acme''), website = Val (js ''https://acme.example''), employeeCount = Val 120,
       industry = Val (js ''Software''), location = js ''Austin, TX USA''\<rparr>]"
  using transformApolloResponse_valid
    [of "[\<lparr>org_name = Val (js ''Acme''), website_url = Val (js ''https://acme.example''),
       estimated_num_employees = Val 120, org_industry = Val (js ''Software''),
       city = Val (js ''Austin''), state = Val (js ''TX''), country = Val (js ''USA'')\<rparr>,
      \<lparr>org_name = Undefined, website_url = Val (js ''https://nameless.example''),
       estimated_num_employees = Val 60, org_industry = Val (js ''Data''),
       city = Undefined, state = Null, country = Val (js ''USA'')\<rparr>,
      \<lparr>org_name = Val (js ''Hooli''), website_url = Val [],
       estimated_num_employees = Null, org_industry = Null,
       city = Null, state = Null, country = Null\<rparr>]"]
  by (simp add: to_company_def trim_def is_space_def js_def)

subsection \<open>Keyword reports\<close>

lemma take_filter_first_matches: "take n (filter p xs) = first_matches n p xs"
  by (induction n p xs rule: first_matches.induct) auto

lemma length_first_matches: "length (first_matches n p xs) \<le> n"
  by (induction n p xs rule: first_matches.induct) auto

text \<open>
  Claim C8. For every page text, \<open>extractTechnologyInsights\<close> returns the empty list
  when no keyword of its list of 10 occurs in the text, and otherwise a single string,
  \<open>Technology focus: \<close> followed by the first at most 3 keywords that occur, in the order
  of the keyword list, joined by a comma and a space. \<open>extractBusinessInsights\<close> does
  the same with its list of 7 keywords, the prefix \<open>Business indicators: \<close> and at most 2
  keywords.
\<close>

theorem keyword_insights_first_matches:
  "length techKeywords = 10 \<and> length businessKeywords = 7
   \<and> extractTechnologyInsights pageText
       = (if \<exists>keyword \<in> set techKeywords. str_includes pageText keyword
          then [js ''Technology focus: ''
                @ join (js '', '')
                    (first_matches 3 (\<lambda>keyword. str_includes pageText keyword) techKeywords)]
          else [])
   \<and> extractBusinessInsights pageText
       = (if \<exists>keyword \<in> set businessKeywords. str_includes pageText keyword
          then [js ''Business indicators: ''
                @ join (js '', '')
                    (first_matches 2 (\<lambda>keyword. str_includes pageText keyword)
                       businessKeywords)]
          else [])
   \<and> length (first_matches 3 (\<lambda>keyword. str_includes pageText keyword) techKeywords) \<le> 3
   \<and> length (first_matches 2 (\<lambda>keyword. str_includes pageText keyword) businessKeywords)
       \<le> 2"
proof -
  have "length techKeywords = 10" "length businessKeywords = 7"
    by (simp_all add: techKeywords_def businessKeywords_def)
  moreover have "extractTechnologyInsights pageText
       = (if \<exists>keyword \<in> set techKeywords. str_includes pageText keyword
          then [js ''Technology focus: ''
                @ join (js '', '')
                    (first_matches 3 (\<lambda>keyword. str_includes pageText keyword) techKeywords)]
          else [])"
    unfolding extractTechnologyInsights_def Let_def take_filter_first_matches
    by (simp only: length_greater_0_conv filter_empty_conv) auto
  moreover have "extractBusinessInsights pageText
       = (if \<exists>keyword \<in> set businessKeywords. str_includes pageText keyword
          then [js ''Business indicators: ''
                @ join (js '', '')
                    (first_matches 2 (\<lambda>keyword. str_includes pageText keyword)
                       businessKeywords)]
          else [])"
    unfolding extractBusinessInsights_def Let_def take_filter_first_matches
    by (simp only: length_greater_0_conv filter_empty_conv) auto
  ultimately show ?thesis
    using length_first_matches by blast
qed

theorem keyword_insights_first_matches_witness:
  "extractTechnologyInsights (js ''cloud ai saas api at global scale'')
   = [js ''Technology focus: cloud, ai, saas'']
   \<and> extractBusinessInsights (js ''cloud ai saas api at global scale'')
   = [js ''Business indicators: global, scale'']
   \<and> extractTechnologyInsights (js ''hello'') = []
   \<and> extractBusinessInsights (js ''hello'') = []"
proof -
  have found:
    "first_matches 3 (\<lambda>keyword. str_includes (js ''cloud ai saas api at global scale'') keyword)
       techKeywords = [js ''cloud'', js ''ai'', js ''saas'']"
    "first_matches 2 (\<lambda>keyword. str_includes (js ''cloud ai saas api at global scale'') keyword)
       businessKeywords = [js ''global'', js ''scale'']"
    by (simp_all add: take_filter_first_matches [symmetric] techKeywords_def
          businessKeywords_def js_def)
  have some:
    "\<exists>keyword \<in> set techKeywords.
       str_includes (js ''cloud ai saas api at global scale'') keyword"
    "\<exists>keyword \<in> set businessKeywords.
       str_includes (js ''cloud ai saas api at global scale'') keyword"
    by (simp_all add: techKeywords_def businessKeywords_def js_def)
  have none:
    "\<not> (\<exists>keyword \<in> set techKeywords. str_includes (js ''hello'') keyword)"
    "\<not> (\<exists>keyword \<in> set businessKeywords. str_includes (js ''hello'') keyword)"
    by (simp_all add: techKeywords_def businessKeywords_def js_def)
  show ?thesis
    using keyword_insights_first_matches [of "js ''cloud ai saas api at global scale''"]
      keyword_insights_first_matches [of "js ''hello''"]
    by (simp only: found some none if_True if_False join.simps) (simp add: js_def)
qed

subsection \<open>Messages\<close>

lemma createFallbackMessage_nonempty: "createFallbackMessage rt ec \<noteq> []"
  by (simp add: createFallbackMessage_def Let_def)

lemma createFallbackMessage_generic:
  assumes "insights ec = [] \<or> (\<exists>rest. insights ec = [] # rest)"
  shows "createFallbackMessage rt ec
   = js ''Hi '' @ render id (name ec) @ js '' team,'' @ nl @ nl
     @ js ''I noticed your company in the '' @ render id (industry ec)
     @ js '' space with '' @ render (number_to_string rt) (employeeCount ec)
     @ js '' employees. Based on your growth and technical focus, I believe TechHardware Pro could help optimize your IT infrastructure with enterprise-grade hardware solutions.''
     @ nl @ nl
     @ js ''Our hardware solutions could significantly enhance your operations.''
     @ nl @ nl
     @ js ''Would you be open to a brief conversation about your current hardware needs?''
     @ nl @ nl @ js ''Best regards,'' @ nl @ js ''Sales Team - TechHardware Pro''"
  using assms by (auto simp add: createFallbackMessage_def Let_def)

lemma createFallbackMessage_first:
  assumes "insights ec = first # rest" and "first \<noteq> []"
  shows "createFallbackMessage rt ec
   = js ''Hi '' @ render id (name ec) @ js '' team,'' @ nl @ nl
     @ js ''I noticed your company in the '' @ render id (industry ec)
     @ js '' space with '' @ render (number_to_string rt) (employeeCount ec)
     @ js '' employees. Based on your growth and technical focus, I believe TechHardware Pro could help optimize your IT infrastructure with enterprise-grade hardware solutions.''
     @ nl @ nl
     @ js ''Given your '' @ toLowerCase rt first
     @ js '', our high-performance servers and workstations could significantly enhance your operations.''
     @ nl @ nl
     @ js ''Would you be open to a brief conversation about your current hardware needs?''
     @ nl @ nl @ js ''Best regards,'' @ nl @ js ''Sales Team - TechHardware Pro''"
  using assms by (simp add: createFallbackMessage_def Let_def)

text \<open>
  Claim C10. For every enriched candidate, \<open>createFallbackMessage\<close> returns a non-empty
  message (the function has no failing branch: reading \<^verbatim>\<open>insights[0]\<close> of an empty array
  gives \<^verbatim>\<open>undefined\<close>, which is falsy). When the insight list is empty, the message is
  the template with the generic hardware-solutions sentence in place of the insight
  sentence.
\<close>

theorem createFallbackMessage_total:
  "createFallbackMessage rt ec \<noteq> []
   \<and> (insights ec = [] \<longrightarrow>
        createFallbackMessage rt ec
        = js ''Hi '' @ render id (name ec) @ js '' team,'' @ nl @ nl
          @ js ''I noticed your company in the '' @ render id (industry ec)
          @ js '' space with '' @ render (number_to_string rt) (employeeCount ec)
          @ js '' employees. Based on your growth and technical focus, I believe TechHardware Pro could help optimize your IT infrastructure with enterprise-grade hardware solutions.''
          @ nl @ nl
          @ js ''Our hardware solutions could significantly enhance your operations.''
          @ nl @ nl
          @ js ''Would you be open to a brief conversation about your current hardware needs?''
          @ nl @ nl @ js ''Best regards,'' @ nl @ js ''Sales Team - TechHardware Pro'')"
  using createFallbackMessage_nonempty [where rt = rt and ec = ec] createFallbackMessage_generic [where rt = rt and ec = ec]
  by blast

theorem createFallbackMessage_total_witness:
  "\<forall>rt. createFallbackMessage rt
     \<lparr>name = Val (js ''Acme''), website = Val (js ''https://acme.example''),
      employeeCount = Val 42, industry = Val (js ''Robotics''),
      location = js ''Austin, TX USA'',
      insights = [], lastUpdated = js ''2024-05-01T10:00:00.000Z''\<rparr>
   = js ''Hi Acme team,'' @ nl @ nl
     @ js ''I noticed your company in the Robotics space with 42 employees. Based on your growth and technical focus, I believe TechHardware Pro could help optimize your IT infrastructure with enterprise-grade hardware solutions.''
     @ nl @ nl
     @ js ''Our hardware solutions could significantly enhance your operations.''
     @ nl @ nl
     @ js ''Would you be open to a brief conversation about your current hardware needs?''
     @ nl @ nl @ js ''Best regards,'' @ nl @ js ''Sales Team - TechHardware Pro''"
  (is "\<forall>rt. ?P rt")
proof
  fix rt
  show "?P rt"
    using createFallbackMessage_total
      [where rt = rt and ec = "\<lparr>name = Val (js ''Acme''), website = Val (js ''https://acme.example''),
               employeeCount = Val 42, industry = Val (js ''Robotics''),
               location = js ''Austin, TX USA'',
               insights = [], lastUpdated = js ''2024-05-01T10:00:00.000Z''\<rparr>"]
    by (simp add: number_to_string_def decimal.simps digit_unit_def js_def)
qed

lemma trim_empty_iff: "trim s = [] \<longleftrightarrow> (\<forall>c \<in> set s. is_space c)"
proof
  assume "trim s = []"
  then have all: "\<forall>c \<in> set (dropWhile is_space s). is_space c"
    by (simp add: trim_def dropWhile_eq_Nil_conv)
  have "dropWhile is_space s = []"
  proof (rule ccontr)
    assume ne: "dropWhile is_space s \<noteq> []"
    then have "\<not> is_space (hd (dropWhile is_space s))"
      by (rule hd_dropWhile)
    moreover from ne have "hd (dropWhile is_space s) \<in> set (dropWhile is_space s)"
      by (rule hd_in_set)
    ultimately show False
      using all by blast
  qed
  then show "\<forall>c \<in> set s. is_space c"
    by (simp add: dropWhile_eq_Nil_conv)
next
  assume "\<forall>c \<in> set s. is_space c"
  then have d: "dropWhile is_space s = []"
    by (simp add: dropWhile_eq_Nil_conv)
  show "trim s = []"
    unfolding trim_def d by simp
qed

lemma aiMessage_Inr_iff:
  "aiMessage response = Inr msg
   \<longleftrightarrow> (\<exists>content rest. response = Returned (Val content # rest) \<and> msg = trim content)"
  by (induction response rule: aiMessage.induct) auto

lemma final_fields_extend [simp]:
  "personalizedMessage (enriched_company.extend ec (final_result.fields m now a)) = m"
  "messageGenerated (enriched_company.extend ec (final_result.fields m now a)) = now"
  "aiGenerated (enriched_company.extend ec (final_result.fields m now a)) = a"
  "enriched_company.truncate (enriched_company.extend ec (final_result.fields m now a)) = ec"
  "insights (enriched_company.extend ec e) = insights ec"
  "lastUpdated (enriched_company.extend ec e) = lastUpdated ec"
  "name (enriched_company.extend ec e) = name ec"
  "website (enriched_company.extend ec e) = website ec"
  "employeeCount (enriched_company.extend ec e) = employeeCount ec"
  "industry (enriched_company.extend ec e) = industry ec"
  "location (enriched_company.extend ec e) = location ec"
  by (simp_all add: company.defs enriched_company.defs final_result.defs)

text \<open>
  Claim C3, as amended. For every enriched candidate, \<open>generatePersonalizedMessage\<close> sets
  \<open>aiGenerated\<close> to true exactly when the provider call succeeded, that is, when the
  request returned a first choice whose message content is a string; the message is then
  that text trimmed, which is empty exactly when the text is empty or all white space.
  When the provider call fails, \<open>aiGenerated\<close> is false and the message
  is non-empty and equals the fixed fallback template, which for a candidate whose first
  insight is a non-empty string is interpolated with the candidate's name, industry,
  employee count and that insight lower-cased.
\<close>

theorem generatePersonalizedMessage_provenance:
  "aiGenerated (generatePersonalizedMessage rt now response ec)
     = (\<exists>msg. aiMessage response = Inr msg)
   \<and> (\<forall>content rest. response = Returned (Val content # rest) \<longrightarrow>
         aiGenerated (generatePersonalizedMessage rt now response ec)
         \<and> personalizedMessage (generatePersonalizedMessage rt now response ec) = trim content
         \<and> (personalizedMessage (generatePersonalizedMessage rt now response ec) = []
              \<longleftrightarrow> (\<forall>u \<in> set content. is_space u)))
   \<and> (\<forall>e. aiMessage response = Inl e \<longrightarrow>
         \<not> aiGenerated (generatePersonalizedMessage rt now response ec)
         \<and> personalizedMessage (generatePersonalizedMessage rt now response ec) \<noteq> []
         \<and> personalizedMessage (generatePersonalizedMessage rt now response ec)
             = createFallbackMessage rt ec
         \<and> (\<forall>first rest. insights ec = first # rest \<and> first \<noteq> [] \<longrightarrow>
               personalizedMessage (generatePersonalizedMessage rt now response ec)
               = js ''Hi '' @ render id (name ec) @ js '' team,'' @ nl @ nl
                 @ js ''I noticed your company in the '' @ render id (industry ec)
                 @ js '' space with '' @ render (number_to_string rt) (employeeCount ec)
                 @ js '' employees. Based on your growth and technical focus, I believe TechHardware Pro could help optimize your IT infrastructure with enterprise-grade hardware solutions.''
                 @ nl @ nl
                 @ js ''Given your '' @ toLowerCase rt first
                 @ js '', our high-performance servers and workstations could significantly enhance your operations.''
                 @ nl @ nl
                 @ js ''Would you be open to a brief conversation about your current hardware needs?''
                 @ nl @ nl @ js ''Best regards,'' @ nl @ js ''Sales Team - TechHardware Pro''))"
proof (cases "aiMessage response")
  case (Inl e)
  then have m: "personalizedMessage (generatePersonalizedMessage rt now response ec)
                = createFallbackMessage rt ec"
    and a: "\<not> aiGenerated (generatePersonalizedMessage rt now response ec)"
    by (simp_all add: generatePersonalizedMessage_def)
  from Inl a m show ?thesis
    using createFallbackMessage_nonempty [where rt = rt and ec = ec] createFallbackMessage_first [where rt = rt and ec = ec]
    by auto
next
  case (Inr msg)
  then show ?thesis
    by (auto simp: generatePersonalizedMessage_def trim_empty_iff)
qed

theorem generatePersonalizedMessage_provenance_witness:
  "\<forall>rt.
     personalizedMessage
       (generatePersonalizedMessage rt (js ''2024-05-01T10:00:01.000Z'') Threw
          \<lparr>name = Val (js ''Acme''), website = Val (js ''https://acme.example''),
           employeeCount = Val 42, industry = Val (js ''Robotics''),
           location = js ''Austin, TX USA'',
           insights = [js ''Growing company likely expanding their tech stack''],
           lastUpdated = js ''2024-05-01T10:00:00.000Z''\<rparr>)
     = js ''Hi Acme team,'' @ nl @ nl
       @ js ''I noticed your company in the Robotics space with 42 employees. Based on your growth and technical focus, I believe TechHardware Pro could help optimize your IT infrastructure with enterprise-grade hardware solutions.''
       @ nl @ nl
       @ js ''Given your growing company likely expanding their tech stack, our high-performance servers and workstations could significantly enhance your operations.''
       @ nl @ nl
       @ js ''Would you be open to a brief conversation about your current hardware needs?''
       @ nl @ nl @ js ''Best regards,'' @ nl @ js ''Sales Team - TechHardware Pro''
     \<and> personalizedMessage
         (generatePersonalizedMessage rt (js ''2024-05-01T10:00:01.000Z'')
            (Returned [Val ([0x00A0, 0x0020] @ js ''Hello Acme team!'' @ [0x000A, 0x3000])])
            \<lparr>name = Val (js ''Acme''), website = Val (js ''https://acme.example''),
             employeeCount = Val 42, industry = Val (js ''Robotics''),
             location = js ''Austin, TX USA'',
             insights = [js ''Growing company likely expanding their tech stack''],
             lastUpdated = js ''2024-05-01T10:00:00.000Z''\<rparr>)
       = js ''Hello Acme team!''"
  (is "\<forall>rt. ?P rt")
proof
  fix rt
  show "?P rt"
    using generatePersonalizedMessage_provenance
        [where rt = rt and now = "js ''2024-05-01T10:00:01.000Z''" and response = Threw
           and ec = "\<lparr>name = Val (js ''Acme''), website = Val (js ''https://acme.example''),
              employeeCount = Val 42, industry = Val (js ''Robotics''),
              location = js ''Austin, TX USA'',
              insights = [js ''Growing company likely expanding their tech stack''],
              lastUpdated = js ''2024-05-01T10:00:00.000Z''\<rparr>"]
      generatePersonalizedMessage_provenance
        [where rt = rt and now = "js ''2024-05-01T10:00:01.000Z''"
           and response =
             "Returned [Val ([0x00A0, 0x0020] @ js ''Hello Acme team!'' @ [0x000A, 0x3000])]"
           and ec = "\<lparr>name = Val (js ''Acme''), website = Val (js ''https://acme.example''),
              employeeCount = Val 42, industry = Val (js ''Robotics''),
              location = js ''Austin, TX USA'',
              insights = [js ''Growing company likely expanding their tech stack''],
              lastUpdated = js ''2024-05-01T10:00:00.000Z''\<rparr>"]
    by (simp add: createFallbackMessage_def Let_def number_to_string_def decimal.simps
          digit_unit_def toLowerCase_def is_ascii_def ascii_lower_def trim_def is_space_def
          js_def)
qed

text \<open>
  Claim C3 as it is written fails where the provider call succeeds with an empty text:
  the message is empty and \<open>aiGenerated\<close> is true. The success branch consults no table of
  the runtime, so the same holds for every runtime
  (\<open>generatePersonalizedMessage_empty_text\<close>).
\<close>

theorem generatePersonalizedMessage_empty_counterexample:
  "aiMessage (Returned [Val []]) = Inr []
   \<and> personalizedMessage
       (generatePersonalizedMessage sample_runtime (js ''2024-05-01T10:00:01.000Z'')
          (Returned [Val []])
          \<lparr>name = Val (js ''Acme''), website = Val (js ''https://acme.example''),
           employeeCount = Val 42, industry = Val (js ''Robotics''),
           location = js ''Austin, TX USA'',
           insights = [js ''Growing company likely expanding their tech stack''],
           lastUpdated = js ''2024-05-01T10:00:00.000Z''\<rparr>) = []
   \<and> aiGenerated
       (generatePersonalizedMessage sample_runtime (js ''2024-05-01T10:00:01.000Z'')
          (Returned [Val []])
          \<lparr>name = Val (js ''Acme''), website = Val (js ''https://acme.example''),
           employeeCount = Val 42, industry = Val (js ''Robotics''),
           location = js ''Austin, TX USA'',
           insights = [js ''Growing company likely expanding their tech stack''],
           lastUpdated = js ''2024-05-01T10:00:00.000Z''\<rparr>)"
  by (simp add: generatePersonalizedMessage_def trim_def)

lemma generatePersonalizedMessage_empty_text:
  assumes "\<forall>u \<in> set content. is_space u"
  shows "personalizedMessage
           (generatePersonalizedMessage rt now (Returned (Val content # rest)) ec) = []
         \<and> aiGenerated (generatePersonalizedMessage rt now (Returned (Val content # rest)) ec)"
  using assms by (simp add: generatePersonalizedMessage_def trim_empty_iff)

lemma trim_no_break_space: "trim [0x00A0] = []"
  by (simp add: trim_def is_space_def)

subsection \<open>Enrichment of one candidate\<close>

lemma enriched_fields_extend [simp]:
  "insights (company.extend c (enriched_company.fields ins now)) = ins"
  "lastUpdated (company.extend c (enriched_company.fields ins now)) = now"
  "company.truncate (company.extend c e) = c"
  "name (company.extend c e) = name c"
  "website (company.extend c e) = website c"
  "employeeCount (company.extend c e) = employeeCount c"
  "industry (company.extend c e) = industry c"
  "location (company.extend c e) = location c"
  by (simp_all add: company.defs enriched_company.defs)

lemma website_insights_nonempty: "website_insights rt p c \<noteq> []"
  by (simp add: website_insights_def Let_def)

lemma scrapeCompanyWebsite_Returned:
  "scrapeCompanyWebsite rt now (Returned p) c
   = Inr (company.extend c (enriched_company.fields (website_insights rt p c) now))"
  by (simp add: scrapeCompanyWebsite_def)

lemma scrapeCompanyWebsite_Threw:
  "generateMockInsights c = Inr mock \<Longrightarrow>
   scrapeCompanyWebsite rt now Threw c = Inr (company.extend c (enriched_company.fields mock now))"
  by (simp add: scrapeCompanyWebsite_def)

text \<open>
  The \<^verbatim>\<open>catch\<close> block is not itself guarded: for a company object whose industry is
  absent or \<^verbatim>\<open>null\<close>, a failed fetch ends in the \<^verbatim>\<open>TypeError\<close> of
  \<open>generateMockInsights\<close>.
\<close>

lemma scrapeCompanyWebsite_TypeError:
  "\<not> is_string (industry c) \<Longrightarrow> scrapeCompanyWebsite rt now Threw c = Inl TypeError"
  by (simp add: scrapeCompanyWebsite_def generateMockInsights_TypeError)

lemma scrapeCompanyWebsite_returns:
  assumes "is_string (industry c)"
  shows "\<exists>r. scrapeCompanyWebsite rt now fetched c = Inr r"
proof (cases fetched)
  case Threw
  from generateMockInsights_returns [OF assms]
  obtain mock where "generateMockInsights c = Inr mock"
    by (elim exE conjE)
  with Threw show ?thesis
    by (simp add: scrapeCompanyWebsite_Threw)
next
  case (Returned p)
  then show ?thesis
    by (simp add: scrapeCompanyWebsite_Returned)
qed

lemma scrapeCompanyWebsite_truncate:
  "scrapeCompanyWebsite rt now fetched c = Inr r \<Longrightarrow> company.truncate r = c"
  by (auto simp: scrapeCompanyWebsite_def split: attempt.splits sum.splits)

text \<open>Every insight of an enriched candidate is a non-empty string, the first one included.\<close>

lemma website_insights_entries: "[] \<notin> set (website_insights rt p c)"
  using size_insight_nonempty [of "employeeCount c"]
  by (auto simp: website_insights_def Let_def extractMetadataInsights_def
      extractTechnologyInsights_def extractBusinessInsights_def)

lemma generateMockInsights_entries:
  assumes "generateMockInsights c = Inr ins"
  shows "[] \<notin> set ins"
proof (cases "industry c")
  case (Val ind)
  show ?thesis
  proof (cases "find (\<lambda>key. str_includes ind key) industry_keys")
    case None
    from generateMockInsights_no_key [OF Val None] assms size_insight_nonempty [of "employeeCount c"]
    show ?thesis by auto
  next
    case (Some key)
    from generateMockInsights_key [OF Val Some] assms size_insight_nonempty [of "employeeCount c"]
    show ?thesis by auto
  qed
qed (use assms in \<open>simp_all add: generateMockInsights_def\<close>)

lemma scrapeCompanyWebsite_first_insight:
  assumes "scrapeCompanyWebsite rt now fetched c = Inr r"
  shows "\<exists>first rest. insights r = first # rest \<and> first \<noteq> []"
proof -
  have "insights r \<noteq> [] \<and> [] \<notin> set (insights r)"
  proof (cases fetched)
    case Threw
    with assms obtain mock where m: "generateMockInsights c = Inr mock" "insights r = mock"
      by (auto simp: scrapeCompanyWebsite_def split: sum.splits)
    from generateMockInsights_size_last [OF m(1)] generateMockInsights_entries [OF m(1)] m(2)
    show ?thesis by simp
  next
    case (Returned p)
    with assms have "insights r = website_insights rt p c"
      by (auto simp: scrapeCompanyWebsite_Returned)
    with website_insights_nonempty [of rt p c] website_insights_entries [of rt p c]
    show ?thesis by simp
  qed
  then show ?thesis
    by (cases "insights r") auto
qed

text \<open>
  For a candidate whose industry is a string and every outcome of the website fetch,
  \<open>scrapeCompanyWebsite\<close> returns a result whose insight list has at least one entry:
  the website-derived insights when the fetch returned, the ones of
  \<open>generateMockInsights\<close> when it threw. When the fetch returned, the same holds for
  every candidate.
\<close>

lemma scrapeCompanyWebsite_insights:
  assumes "is_string (industry c)"
  shows "\<exists>r. scrapeCompanyWebsite rt now fetched c = Inr r
             \<and> 1 \<le> length (insights r)
             \<and> (case fetched of
                   Returned p \<Rightarrow> insights r = website_insights rt p c
                 | Threw \<Rightarrow> generateMockInsights c = Inr (insights r))"
proof (cases fetched)
  case Threw
  from generateMockInsights_returns [OF assms]
  obtain mock where mock: "generateMockInsights c = Inr mock" "1 \<le> length mock"
    by (elim exE conjE)
  with Threw show ?thesis
    by (simp add: scrapeCompanyWebsite_Threw)
next
  case (Returned p)
  with website_insights_nonempty [of rt p c] show ?thesis
    by (simp add: scrapeCompanyWebsite_Returned Suc_le_eq)
qed

lemma scrapeCompanyWebsite_insights_fetched:
  "\<exists>r. scrapeCompanyWebsite rt now (Returned p) c = Inr r
        \<and> 1 \<le> length (insights r) \<and> insights r = website_insights rt p c"
  using website_insights_nonempty [of rt p c]
  by (simp add: scrapeCompanyWebsite_Returned Suc_le_eq)

lemma scrapeCompanyWebsite_insights_example:
  "(\<exists>r. scrapeCompanyWebsite rt (js ''2024-05-01T10:00:00.000Z'') Threw
           \<lparr>name = Val (js ''Acme''), website = Val (js ''https://acme.example''),
            employeeCount = Val 10, industry = Val (js ''Unknown Widgets''),
            location = js ''Austin, TX USA''\<rparr> = Inr r
        \<and> insights r = [js ''Growing company likely expanding their tech stack''])
   \<and> (\<exists>r. scrapeCompanyWebsite rt (js ''2024-05-01T10:00:00.000Z'')
           (Returned \<lparr>metaDescription = Undefined, title = js ''Acme'',
                      bodyText = js ''Cloud API for global Customers''\<rparr>)
           \<lparr>name = Val (js ''Acme''), website = Val (js ''https://acme.example''),
            employeeCount = Val 10, industry = Val (js ''Unknown Widgets''),
            location = js ''Austin, TX USA''\<rparr> = Inr r
        \<and> insights r = [js ''Company positioning: Acme...'',
                         js ''Technology focus: cloud, api'',
                         js ''Business indicators: customers, global'',
                         js ''Growing company likely expanding their tech stack''])"
  by (simp add: scrapeCompanyWebsite_def generateMockInsights_def industry_keys_eq
        website_insights_def extractMetadataInsights_def extractTechnologyInsights_def
        extractBusinessInsights_def techKeywords_def businessKeywords_def substring0_def
        toLowerCase_def is_ascii_def ascii_lower_def js_def)

text \<open>
  Claim C2 says that for every candidate \<open>scrapeCompanyWebsite\<close> returns a result with at
  least one insight, whether the fetch succeeds or a failure triggers the heuristic
  fallback. The code breaks it: \<open>transformApolloResponse\<close> tests the name and the website
  only, so it emits a candidate whose industry is \<^verbatim>\<open>null\<close>; when the fetch of that
  candidate's website fails, the \<^verbatim>\<open>catch\<close> block calls \<open>generateMockInsights\<close>, whose
  \<^verbatim>\<open>company.industry.includes\<close> raises a \<^verbatim>\<open>TypeError\<close>; the error leaves
  \<open>scrapeCompanyWebsite\<close>, which returns no result and no insight.
\<close>

theorem scrapeCompanyWebsite_null_industry_raises:
  "transformApolloResponse
     [\<lparr>org_name = Val (js ''Acme''), website_url = Val (js ''https://acme.example''),
       estimated_num_employees = Val 10, org_industry = Null,
       city = Val (js ''Austin''), state = Val (js ''TX''), country = Val (js ''USA'')\<rparr>]
   = [\<lparr>name = Val (js ''Acme''), website = Val (js ''https://acme.example''),
       employeeCount = Val 10, industry = Null, location = js ''Austin, TX USA''\<rparr>]
   \<and> scrapeCompanyWebsite rt now Threw
       \<lparr>name = Val (js ''Acme''), website = Val (js ''https://acme.example''),
        employeeCount = Val 10, industry = Null, location = js ''Austin, TX USA''\<rparr>
     = Inl TypeError"
  by (simp add: transformApolloResponse_def to_company_def trim_def is_space_def
        scrapeCompanyWebsite_def generateMockInsights_def js_def)

text \<open>
  Claim C9. Whenever \<open>scrapeCompanyWebsite\<close> returns, its result has the candidate's
  name, website, employee count, industry and location unchanged: cut back to the
  candidate's fields it is the candidate. \<open>generatePersonalizedMessage\<close> likewise leaves
  every field of the enriched candidate unchanged. Both build a new record from their
  argument (an object spread in the source, which assigns to no property of its argument);
  the argument is a value of the embedding and stays what it was.
\<close>

theorem stages_preserve_fields:
  "(\<forall>r. scrapeCompanyWebsite rt now fetched c = Inr r \<longrightarrow>
         name r = name c \<and> website r = website c \<and> employeeCount r = employeeCount c
         \<and> industry r = industry c \<and> location r = location c
         \<and> company.truncate r = c)
   \<and> (let f = generatePersonalizedMessage rt now' response ec
      in name f = name ec \<and> website f = website ec \<and> employeeCount f = employeeCount ec
         \<and> industry f = industry ec \<and> location f = location ec
         \<and> insights f = insights ec \<and> lastUpdated f = lastUpdated ec
         \<and> enriched_company.truncate f = ec)"
proof -
  have "name r = name c \<and> website r = website c \<and> employeeCount r = employeeCount c
         \<and> industry r = industry c \<and> location r = location c
         \<and> company.truncate r = c"
    if "scrapeCompanyWebsite rt now fetched c = Inr r" for r
    using that
    by (auto simp: scrapeCompanyWebsite_def split: attempt.splits sum.splits)
  moreover have "let f = generatePersonalizedMessage rt now' response ec
      in name f = name ec \<and> website f = website ec \<and> employeeCount f = employeeCount ec
         \<and> industry f = industry ec \<and> location f = location ec
         \<and> insights f = insights ec \<and> lastUpdated f = lastUpdated ec
         \<and> enriched_company.truncate f = ec"
    by (simp add: generatePersonalizedMessage_def Let_def split: sum.splits)
  ultimately show ?thesis by blast
qed

theorem stages_preserve_fields_witness:
  "\<forall>rt.
     scrapeCompanyWebsite rt (js ''2024-05-01T10:00:00.000Z'') Threw
       \<lparr>name = Val (js ''Acme''), website = Val (js ''https://acme.example''),
        employeeCount = Val 10, industry = Val (js ''Unknown Widgets''),
        location = js ''Austin, TX USA''\<rparr>
     = Inr \<lparr>name = Val (js ''Acme''), website = Val (js ''https://acme.example''),
            employeeCount = Val 10, industry = Val (js ''Unknown Widgets''),
            location = js ''Austin, TX USA'',
            insights = [js ''Growing company likely expanding their tech stack''],
            lastUpdated = js ''2024-05-01T10:00:00.000Z''\<rparr>
     \<and> company.truncate
           \<lparr>name = Val (js ''Acme''), website = Val (js ''https://acme.example''),
            employeeCount = Val 10, industry = Val (js ''Unknown Widgets''),
            location = js ''Austin, TX USA'',
            insights = [js ''Growing company likely expanding their tech stack''],
            lastUpdated = js ''2024-05-01T10:00:00.000Z''\<rparr>
         = \<lparr>name = Val (js ''Acme''), website = Val (js ''https://acme.example''),
            employeeCount = Val 10, industry = Val (js ''Unknown Widgets''),
            location = js ''Austin, TX USA''\<rparr>
     \<and> enriched_company.truncate
           (generatePersonalizedMessage rt (js ''2024-05-01T10:00:01.000Z'')
              (Returned [Val (js ''Hello'')])
              \<lparr>name = Val (js ''Acme''), website = Val (js ''https://acme.example''),
               employeeCount = Val 10, industry = Val (js ''Unknown Widgets''),
               location = js ''Austin, TX USA'',
               insights = [js ''Growing company likely expanding their tech stack''],
               lastUpdated = js ''2024-05-01T10:00:00.000Z''\<rparr>)
         = \<lparr>name = Val (js ''Acme''), website = Val (js ''https://acme.example''),
            employeeCount = Val 10, industry = Val (js ''Unknown Widgets''),
            location = js ''Austin, TX USA'',
            insights = [js ''Growing company likely expanding their tech stack''],
            lastUpdated = js ''2024-05-01T10:00:00.000Z''\<rparr>"
  (is "\<forall>rt. ?P rt")
proof
  fix rt
  show "?P rt"
    using stages_preserve_fields
      [where rt = rt and now = "js ''2024-05-01T10:00:00.000Z''" and fetched = Threw
         and c = "\<lparr>name = Val (js ''Acme''), website = Val (js ''https://acme.example''),
            employeeCount = Val 10, industry = Val (js ''Unknown Widgets''),
            location = js ''Austin, TX USA''\<rparr>"
         and now' = "js ''2024-05-01T10:00:01.000Z''"
         and response = "Returned [Val (js ''Hello'')]"
         and ec = "\<lparr>name = Val (js ''Acme''), website = Val (js ''https://acme.example''),
            employeeCount = Val 10, industry = Val (js ''Unknown Widgets''),
            location = js ''Austin, TX USA'',
            insights = [js ''Growing company likely expanding their tech stack''],
            lastUpdated = js ''2024-05-01T10:00:00.000Z''\<rparr>"]
    by (simp add: scrapeCompanyWebsite_def generateMockInsights_def industry_keys_eq
          company.defs enriched_company.defs Let_def js_def)
qed

subsection \<open>The two stages\<close>

lemma enrich_loop_results:
  assumes "\<forall>c \<in> set cs. is_string (industry c)"
  shows "\<exists>rs. enrich_loop rt fetch clock k cs acc = Inr (acc @ rs)
              \<and> length rs = length cs \<and> map company.truncate rs = cs"
  using assms
proof (induction cs arbitrary: k acc)
  case Nil
  show ?case by simp
next
  case (Cons c cs)
  from Cons.prems have "is_string (industry c)" by simp
  then obtain r where r: "scrapeCompanyWebsite rt (clock k) (fetch k) c = Inr r"
    using scrapeCompanyWebsite_returns by fastforce
  have t: "company.truncate r = c"
    using r by (rule scrapeCompanyWebsite_truncate)
  from Cons.prems have "\<forall>c \<in> set cs. is_string (industry c)" by simp
  then have "\<exists>rs. enrich_loop rt fetch clock (Suc k) cs (acc @ [r]) = Inr ((acc @ [r]) @ rs)
              \<and> length rs = length cs \<and> map company.truncate rs = cs"
    by (rule Cons.IH)
  then obtain rs
    where rs: "enrich_loop rt fetch clock (Suc k) cs (acc @ [r]) = Inr ((acc @ [r]) @ rs)"
      "length rs = length cs" "map company.truncate rs = cs"
    by (elim exE conjE)
  have "enrich_loop rt fetch clock k (c # cs) acc = enrich_loop rt fetch clock (Suc k) cs (acc @ [r])"
    by (simp add: r)
  also have "\<dots> = Inr (acc @ (r # rs))"
    by (simp add: rs(1))
  finally have "enrich_loop rt fetch clock k (c # cs) acc = Inr (acc @ (r # rs))" .
  moreover have "length (r # rs) = length (c # cs)"
    by (simp add: rs(2))
  moreover have "map company.truncate (r # rs) = c # cs"
    by (simp add: rs(3) t)
  ultimately show ?case
    by (intro exI [of _ "r # rs"] conjI)
qed

lemma message_loop_results:
  "\<exists>rs. message_loop rt complete clock k es acc = acc @ rs
        \<and> length rs = length es \<and> map enriched_company.truncate rs = es"
proof (induction es arbitrary: k acc)
  case Nil
  show ?case by simp
next
  case (Cons e es)
  define r where "r = generatePersonalizedMessage rt (clock k) (complete k) e"
  have t: "enriched_company.truncate r = e"
    by (simp add: r_def generatePersonalizedMessage_def split: sum.splits)
  have "\<exists>rs. message_loop rt complete clock (Suc k) es (acc @ [r]) = (acc @ [r]) @ rs
        \<and> length rs = length es \<and> map enriched_company.truncate rs = es"
    by (rule Cons.IH)
  then obtain rs
    where rs: "message_loop rt complete clock (Suc k) es (acc @ [r]) = (acc @ [r]) @ rs"
      "length rs = length es" "map enriched_company.truncate rs = es"
    by (elim exE conjE)
  have "message_loop rt complete clock k (e # es) acc
        = message_loop rt complete clock (Suc k) es (acc @ [r])"
    by (simp add: r_def)
  also have "\<dots> = acc @ (r # rs)"
    by (simp add: rs(1))
  finally have "message_loop rt complete clock k (e # es) acc = acc @ (r # rs)" .
  moreover have "length (r # rs) = length (e # es)"
    by (simp add: rs(2))
  moreover have "map enriched_company.truncate (r # rs) = e # es"
    by (simp add: rs(3) t)
  ultimately show ?case
    by (intro exI [of _ "r # rs"] conjI)
qed

lemma truncate_truncate:
  "company.truncate (enriched_company.truncate r) = company.truncate r"
  by (simp add: company.defs enriched_company.defs)

text \<open>
  A failed fetch for a company object without an industry string stops the enrichment
  stage, and with it the run: the stage has no handler of its own.
\<close>

lemma enrichCompaniesWithInsights_TypeError:
  assumes "\<not> is_string (industry c)" and "fetch 0 = Threw"
  shows "enrichCompaniesWithInsights rt fetch clock (c # cs) = Inl TypeError"
  using assms by (simp add: enrichCompaniesWithInsights_def scrapeCompanyWebsite_TypeError)

text \<open>
  For every list of candidates whose industries are strings, whatever the outcomes of
  the website fetches and of the completion requests: the enrichment stage returns a list
  of the same length, whose \<open>i\<close>-th element extends the \<open>i\<close>-th candidate; the
  generation stage returns a list of the same length as the enriched list, whose \<open>i\<close>-th
  element extends the \<open>i\<close>-th enriched candidate; so the two stages in sequence return
  exactly one final result per candidate, in order. The generation stage does so for every
  list of enriched candidates.
\<close>

lemma generateMessagesForCompanies_length:
  "length (generateMessagesForCompanies rt complete clock es) = length es
   \<and> map enriched_company.truncate (generateMessagesForCompanies rt complete clock es) = es"
  using message_loop_results [of rt complete clock 0 es "[]"]
  unfolding generateMessagesForCompanies_def append_Nil by (elim exE conjE) simp

lemma enrich_and_generate_one_to_one:
  assumes "\<forall>c \<in> set cs. is_string (industry c)"
  shows "\<exists>enriched results.
           enrichCompaniesWithInsights rt fetch clock1 cs = Inr enriched
           \<and> length enriched = length cs
           \<and> map company.truncate enriched = cs
           \<and> generateMessagesForCompanies rt complete clock2 enriched = results
           \<and> length results = length enriched
           \<and> map enriched_company.truncate results = enriched
           \<and> enrich_and_generate rt fetch clock1 complete clock2 cs = Inr results
           \<and> length results = length cs
           \<and> map company.truncate results = cs"
proof -
  from enrich_loop_results [OF assms, of rt fetch clock1 0 "[]"]
  obtain enriched where e: "enrichCompaniesWithInsights rt fetch clock1 cs = Inr enriched"
    "length enriched = length cs" "map company.truncate enriched = cs"
    unfolding enrichCompaniesWithInsights_def append_Nil by (elim exE conjE)
  from message_loop_results [of rt complete clock2 0 enriched "[]"]
  obtain results where r: "generateMessagesForCompanies rt complete clock2 enriched = results"
    "length results = length enriched" "map enriched_company.truncate results = enriched"
    unfolding generateMessagesForCompanies_def append_Nil by (elim exE conjE)
  have "map company.truncate results
        = map company.truncate (map enriched_company.truncate results)"
    by (simp add: truncate_truncate)
  with r(3) e(3) have "map company.truncate results = cs"
    by simp
  moreover have "enrich_and_generate rt fetch clock1 complete clock2 cs = Inr results"
    by (simp add: enrich_and_generate_def e(1) r(1))
  ultimately show ?thesis
    using e r by (intro exI [of _ enriched] exI [of _ results] conjI) simp_all
qed

text \<open>
  Claim C4 says that for every list of valid candidates the two stages produce exactly as
  many final results as candidates, none dropped, regardless of per-candidate failures.
  The code breaks it. Two provider records, each with a name and a website, the second
  with a \<^verbatim>\<open>null\<close> industry, give two valid candidates. When the website fetches fail,
  the first candidate gets its heuristic insights, and for the second
  \<open>generateMockInsights\<close> raises a \<^verbatim>\<open>TypeError\<close> in the \<^verbatim>\<open>catch\<close> block of
  \<open>scrapeCompanyWebsite\<close>. The loop of the enrichment stage has no handler: the stage
  and the pipeline end with that error and return no list, so two candidates give no
  final result at all.
\<close>

theorem enrich_and_generate_null_industry_aborts:
  "transformApolloResponse
     [\<lparr>org_name = Val (js ''Acme''), website_url = Val (js ''https://acme.example''),
       estimated_num_employees = Val 120, org_industry = Val (js ''Software''),
       city = Val (js ''Austin''), state = Val (js ''TX''), country = Val (js ''USA'')\<rparr>,
      \<lparr>org_name = Val (js ''Hooli''), website_url = Val (js ''https://hooli.example''),
       estimated_num_employees = Val 60, org_industry = Null,
       city = Val (js ''Boston''), state = Val (js ''MA''), country = Val (js ''USA'')\<rparr>]
   = [\<lparr>name = Val (js ''Acme''), website = Val (js ''https://acme.example''),
       employeeCount = Val 120, industry = Val (js ''Software''),
       location = js ''Austin, TX USA''\<rparr>,
      \<lparr>name = Val (js ''Hooli''), website = Val (js ''https://hooli.example''),
       employeeCount = Val 60, industry = Null, location = js ''Boston, MA USA''\<rparr>]
   \<and> enrichCompaniesWithInsights rt (\<lambda>k. Threw) clock1
       [\<lparr>name = Val (js ''Acme''), website = Val (js ''https://acme.example''),
         employeeCount = Val 120, industry = Val (js ''Software''),
         location = js ''Austin, TX USA''\<rparr>,
        \<lparr>name = Val (js ''Hooli''), website = Val (js ''https://hooli.example''),
         employeeCount = Val 60, industry = Null, location = js ''Boston, MA USA''\<rparr>]
     = Inl TypeError
   \<and> enrich_and_generate rt (\<lambda>k. Threw) clock1 complete clock2
       [\<lparr>name = Val (js ''Acme''), website = Val (js ''https://acme.example''),
         employeeCount = Val 120, industry = Val (js ''Software''),
         location = js ''Austin, TX USA''\<rparr>,
        \<lparr>name = Val (js ''Hooli''), website = Val (js ''https://hooli.example''),
         employeeCount = Val 60, industry = Null, location = js ''Boston, MA USA''\<rparr>]
     = Inl TypeError"
  by (simp add: transformApolloResponse_def to_company_def trim_def is_space_def
        enrich_and_generate_def enrichCompaniesWithInsights_def scrapeCompanyWebsite_def
        generateMockInsights_def industry_keys_eq INDUSTRY_INSIGHTS_def js_def)

end
